theory Spec2Isabelle
  imports Main
begin

section \<open>The configuration files as data\<close>

text \<open>
  The repository's behaviour is fixed by two YAML documents: the continuous-integration
  configuration \<^verbatim>\<open>.travis.yml\<close> and the conda manifest \<^verbatim>\<open>environment.yml\<close>.
  Each mapping becomes a record with the keys of the document, each sequence a list in
  document order, each scalar a string (comments and the quotes of quoted scalars are
  not part of a YAML scalar).
\<close>

record deploy_on =
  tags :: bool
  condition :: string

record deploy_entry =
  provider :: string
  distributions :: string
  user :: string
  password_secure :: string
  on :: deploy_on

record travis_config =
  language :: string
  python :: "string list"
  env :: "string list"
  cache_directories :: "string list"
  before_install :: "string list"
  install :: "string list"
  script :: "string list"
  after_success :: "string list"
  deploy :: "deploy_entry list"

definition travis_deploy_pypi :: deploy_entry where
  \<open>travis_deploy_pypi =
     \<lparr> provider = ''pypi'',
       distributions = ''sdist'',
       user = ''nickhand'',
       password_secure =
         ''HgbpYapyGiOpi51rRGx6H5u1PbkaUp9QgLemg5XjfuKt660QAcDFH3KSDJzl6f2PKvnlkLis8f0fieDYrx8pT3PmuvhwZjQi03ArDpdjVSFn+rQvU1ir3f1Qf1gqdlMWttwfdHjLzHQOF3IMomLGDU6+TXQK+4iRJIprufJFSemNOJ9fTx+Qos6/oWo2q566SLVtdHZZsz1N3tuGzdY9gUGdJLx07g2IsE+WX14v9jwPupgZU+uR1o6twA/I+mvqvbcb9BBKBOQGp7XYtSv61H35SNz+GB6SZeOR3pyG4xKXEB6NsKyIU+7YDPLCwPGAJJZ9rGKviErC8ayTaAhcWDLgLahvWze9IkbGmULoqa4Hs/M5sOkI6ETI7mITl6W9LtFTAwDlUcsZNrtRRYtMM7ygI9xqztU3PuKzzAi50HC7aKRncbj0xhzozCT7ocm1bpICeu+vHh7qsIsVAP4dAC8DqeplN1qSsfkS157/bFYoAWhCJclK1i2KScq7ZQR/Ekc+H0fRBZzVmjbP/2Mv7ukuipn7VBqY5PAoQPWsYLMGutKsRoWcU6TmpL/uxU7iZo2ht8OB7aJ5B+vueqlR7sADw0S37HwtspQGlSQ9OV7KLxLGegGaOu9ajxVo0Bidb+RY+ID4rTSVz4qbbNeJkRD1lhjMG0kCcEyzOwmC+Wc='',
       on = \<lparr> tags = True, condition = ''$TRAVIS_PYTHON_VERSION = "2.7"'' \<rparr> \<rparr>\<close>

definition travis :: travis_config where
  \<open>travis =
     \<lparr> language = ''python'',
       python = [''2.7'', ''3.6'', ''3.7''],
       env = [''NUMPY_VERSION=1.15''],
       cache_directories =
         [''$HOME/.cache/pip'', ''$HOME/.conda'', ''$HOME/.astropy/cache/halotools''],
       before_install =
         [''wget http://repo.continuum.io/miniconda/Miniconda3-latest-Linux-x86_64.sh -O miniconda.sh'',
          ''chmod +x miniconda.sh'',
          ''./miniconda.sh -b -p $HOME/miniconda'',
          ''export PATH=$HOME/miniconda/bin:$PATH'',
          ''export PYTHONHTTPSVERIFY=0'',
          ''conda update --yes conda''],
       install =
         [''conda create --yes -n test python=$TRAVIS_PYTHON_VERSION'',
          ''source activate test'',
          ''conda config --add channels astropy'',
          ''conda config --add channels bccp'',
          ''conda install --yes numpy=$NUMPY_VERSION'',
          ''echo "numpy $NUMPY_VERSION.*" >> $CONDA_PREFIX/conda-meta/pinned'',
          ''conda install --yes --file requirements.txt'',
          ''conda install --yes --file requirements-extras.txt'',
          ''pip install coveralls'',
          ''pip install .[extras]''],
       script = [''python run-tests.py -v --mpirun='mpirun -n 4' --with-coverage''],
       after_success = [''coveralls''],
       deploy = [travis_deploy_pypi] \<rparr>\<close>

text \<open>
  \<^verbatim>\<open>environment.yml\<close>: an entry of \<^verbatim>\<open>dependencies\<close> is either a scalar (a conda
  package specification) or the mapping \<^verbatim>\<open>pip:\<close> holding a sequence of specifications
  for pip.
\<close>

datatype dependency = Package string | Pip "string list"

record conda_environment =
  name :: string
  channels :: "string list"
  dependencies :: "dependency list"

definition environment :: conda_environment where
  "environment =
     \<lparr> name = ''nbodykit-docs'',
       channels = [''defaults'', ''bccp'', ''astropy''],
       dependencies =
         [Package ''python=3.6'', Package ''numpy'', Package ''scipy'', Package ''astropy'',
          Package ''mpi4py'', Package ''runtests'', Package ''pmesh'', Package ''kdcount'',
          Package ''mpsort'', Package ''bigfile'', Package ''pandas'', Package ''dask'',
          Package ''cachey'', Package ''sympy'', Package ''numexpr'', Package ''corrfunc'',
          Package ''mcfit'', Package ''classylss'', Package ''h5py'', Package ''halotools'',
          Package ''fitsio'', Package ''sphinx'', Package ''IPython'', Package ''pip'',
          Pip [''nbsphinx'', ''sphinx_bootstrap_theme'', ''sphinx-issues'', ''numpydoc'']] \<rparr>"


section \<open>Shell commands\<close>

text \<open>
  The entries of \<^verbatim>\<open>before_install\<close>, \<^verbatim>\<open>install\<close> and \<^verbatim>\<open>script\<close> are lines run by
  bash. The fragment of bash those lines use is embedded here: a line is cut into words
  at unquoted blanks, single and double quotes group characters into one word and are
  removed, \<^verbatim>\<open>$NAME\<close> is replaced by the variable's value everywhere except inside
  single quotes, and a trailing \<^verbatim>\<open>>> target\<close> appends the command's output to a file.
  Every character of a word remembers the quoting it was read under, since that decides
  whether \<^verbatim>\<open>$\<close> and \<^verbatim>\<open>>>\<close> are active. Backslash escapes, globbing and the splitting
  of expanded values at blanks do not occur in the lines of the configuration and are not
  embedded.
\<close>

datatype quoting = Bare | Single | Double

type_synonym sh_word = "(quoting \<times> char) list"

definition opened :: "sh_word option \<Rightarrow> sh_word" where
  "opened cur = (case cur of None \<Rightarrow> [] | Some w \<Rightarrow> w)"

definition is_blank :: "char \<Rightarrow> bool" where
  "is_blank c \<longleftrightarrow> c = CHR '' '' \<or> c = CHR 0x09"

fun split_words :: "quoting \<Rightarrow> sh_word option \<Rightarrow> string \<Rightarrow> sh_word list" where
  "split_words q None [] = []"
| "split_words q (Some w) [] = [w]"
| "split_words Bare cur (c # cs) =
     (if is_blank c then
        (case cur of None \<Rightarrow> split_words Bare None cs
                   | Some w \<Rightarrow> w # split_words Bare None cs)
      else if c = CHR 0x27 then split_words Single (Some (opened cur)) cs
      else if c = CHR 0x22 then split_words Double (Some (opened cur)) cs
      else split_words Bare (Some (opened cur @ [(Bare, c)])) cs)"
| "split_words Single cur (c # cs) =
     (if c = CHR 0x27 then split_words Bare cur cs
      else split_words Single (Some (opened cur @ [(Single, c)])) cs)"
| "split_words Double cur (c # cs) =
     (if c = CHR 0x22 then split_words Bare cur cs
      else split_words Double (Some (opened cur @ [(Double, c)])) cs)"

definition shell_words :: "string \<Rightarrow> sh_word list" where
  "shell_words line = split_words Bare None line"

definition is_name_char :: "char \<Rightarrow> bool" where
  "is_name_char c \<longleftrightarrow>
     c \<in> set ''ABCDEFGHIJKLMNOPQRSTUVWXYZabcdefghijklmnopqrstuvwxyz0123456789_''"

type_synonym variables = "string \<rightharpoonup> string"

definition var_value :: "variables \<Rightarrow> string \<Rightarrow> string" where
  "var_value vs n =
     (if n = [] then ''$'' else (case vs n of None \<Rightarrow> [] | Some v \<Rightarrow> v))"

text \<open>
  \<open>subst vs pending w\<close> expands the word \<open>w\<close>; \<open>pending\<close> is the variable name read so
  far after an active \<^verbatim>\<open>$\<close>. A \<^verbatim>\<open>$\<close> followed by no name character stays as it is, an
  unset variable expands to the empty string.
\<close>

fun subst :: "variables \<Rightarrow> string option \<Rightarrow> sh_word \<Rightarrow> string" where
  "subst vs None [] = []"
| "subst vs (Some n) [] = var_value vs n"
| "subst vs None ((q, c) # w) =
     (if q \<noteq> Single \<and> c = CHR ''$'' then subst vs (Some []) w
      else c # subst vs None w)"
| "subst vs (Some n) ((q, c) # w) =
     (if q \<noteq> Single \<and> is_name_char c then subst vs (Some (n @ [c])) w
      else var_value vs n @
        (if q \<noteq> Single \<and> c = CHR ''$'' then subst vs (Some []) w
         else c # subst vs None w))"

definition expand :: "variables \<Rightarrow> sh_word \<Rightarrow> string" where
  "expand vs w = subst vs None w"

text \<open>
  A command line after expansion: the argument vector and, when the line ends in
  \<^verbatim>\<open>>> target\<close> (the operator unquoted), the file its output is appended to.
\<close>

record simple_command =
  argv :: "string list"
  append_to :: "string option"

definition is_append_op :: "sh_word \<Rightarrow> bool" where
  "is_append_op w \<longleftrightarrow> w = [(Bare, CHR ''>''), (Bare, CHR ''>'')]"

definition parse_command :: "variables \<Rightarrow> string \<Rightarrow> simple_command" where
  "parse_command vs line =
     (let ws = shell_words line; n = length ws
      in if 2 \<le> n \<and> is_append_op (ws ! (n - 2))
         then \<lparr> argv = map (expand vs) (take (n - 2) ws),
                append_to = Some (expand vs (last ws)) \<rparr>
         else \<lparr> argv = map (expand vs) ws, append_to = None \<rparr>)"

text \<open>
  The state of the job's shell: its variables and the lines of the files it writes
  (a file that does not exist has no lines, and \<^verbatim>\<open>rm\<close> leaves it so).
  What lies outside the configuration is a parameter: the directory conda gives to a
  named environment, and what a program other than the builtin \<^verbatim>\<open>echo\<close> prints.
\<close>

record shell_state =
  vars :: variables
  files :: "string \<Rightarrow> string list"

record world =
  env_prefix :: "string \<Rightarrow> string"
  stdout_of :: "string list \<Rightarrow> string list"

fun unwords :: "string list \<Rightarrow> string" where
  "unwords [] = []"
| "unwords [a] = a"
| "unwords (a # b # as) = a @ '' '' @ unwords (b # as)"

definition printed :: "world \<Rightarrow> string list \<Rightarrow> string list" where
  "printed w av =
     (case av of
        [] \<Rightarrow> []
      | p # args \<Rightarrow> if p = ''echo'' then [unwords args] else stdout_of w av)"

definition assign :: "variables \<Rightarrow> string \<Rightarrow> variables" where
  "assign vs a =
     (if CHR ''='' \<in> set a
      then vs(takeWhile (\<lambda>c. c \<noteq> CHR ''='') a \<mapsto> tl (dropWhile (\<lambda>c. c \<noteq> CHR ''='') a))
      else vs)"

definition activate :: "world \<Rightarrow> string \<Rightarrow> variables \<Rightarrow> variables" where
  "activate w n vs =
     vs(''CONDA_PREFIX'' \<mapsto> env_prefix w n,
        ''CONDA_DEFAULT_ENV'' \<mapsto> n,
        ''PATH'' \<mapsto> env_prefix w n @ ''/bin:'' @ var_value vs ''PATH'')"

definition exec :: "world \<Rightarrow> string \<Rightarrow> shell_state \<Rightarrow> shell_state" where
  "exec w line s =
     (let c = parse_command (vars s) line;
          s1 = (case append_to c of
                  None \<Rightarrow> s
                | Some f \<Rightarrow> s\<lparr>files := (files s)(f := files s f @ printed w (argv c))\<rparr>)
      in case argv c of
           [] \<Rightarrow> s1
         | p # args \<Rightarrow>
             if p = ''export'' then s1\<lparr>vars := foldl assign (vars s1) args\<rparr>
             else if p = ''source'' \<and> length args = 2 \<and> hd args = ''activate''
               then s1\<lparr>vars := activate w (last args) (vars s1)\<rparr>
             else if p = ''rm''
               then s1\<lparr>files := foldl (\<lambda>fs f. fs(f := [])) (files s1)
                                   (filter (\<lambda>a. take 1 a \<noteq> ''-'') args)\<rparr>
             else s1)"

definition run :: "world \<Rightarrow> string list \<Rightarrow> shell_state \<Rightarrow> shell_state" where
  "run w ls s = foldl (\<lambda>t l. exec w l t) s ls"

text \<open>Every command of a phase, paired with the state it starts in.\<close>

fun trace :: "world \<Rightarrow> string list \<Rightarrow> shell_state \<Rightarrow> (simple_command \<times> shell_state) list" where
  "trace w [] s = []"
| "trace w (l # ls) s = (parse_command (vars s) l, s) # trace w ls (exec w l s)"


section \<open>Jobs of the build matrix\<close>

text \<open>
  Travis runs one job for every pair of an entry of \<^verbatim>\<open>python\<close> and an entry of
  \<^verbatim>\<open>env\<close>. A job starts with \<^verbatim>\<open>TRAVIS_PYTHON_VERSION\<close> set to its interpreter and
  its \<^verbatim>\<open>env\<close> entry exported, then runs \<^verbatim>\<open>before_install\<close>, \<^verbatim>\<open>install\<close> and
  \<^verbatim>\<open>script\<close> in one shell.
\<close>

record job =
  job_python :: string
  job_env :: "string option"


definition job_start :: "world \<Rightarrow> shell_state \<Rightarrow> job \<Rightarrow> shell_state" where
  "job_start w s0 j =
     (let s1 = s0\<lparr>vars := (vars s0)(''TRAVIS_PYTHON_VERSION'' \<mapsto> job_python j)\<rparr>
      in case job_env j of None \<Rightarrow> s1 | Some e \<Rightarrow> exec w (''export '' @ e) s1)"

definition at_install :: "travis_config \<Rightarrow> world \<Rightarrow> shell_state \<Rightarrow> job \<Rightarrow> shell_state" where
  "at_install c w s0 j = run w (before_install c) (job_start w s0 j)"

definition install_trace ::
    "travis_config \<Rightarrow> world \<Rightarrow> shell_state \<Rightarrow> job \<Rightarrow> (simple_command \<times> shell_state) list" where
  "install_trace c w s0 j = trace w (install c) (at_install c w s0 j)"

definition at_script :: "travis_config \<Rightarrow> world \<Rightarrow> shell_state \<Rightarrow> job \<Rightarrow> shell_state" where
  "at_script c w s0 j = run w (install c) (at_install c w s0 j)"

definition script_trace ::
    "travis_config \<Rightarrow> world \<Rightarrow> shell_state \<Rightarrow> job \<Rightarrow> (simple_command \<times> shell_state) list" where
  "script_trace c w s0 j = trace w (script c) (at_script c w s0 j)"

definition at_deploy :: "travis_config \<Rightarrow> world \<Rightarrow> shell_state \<Rightarrow> job \<Rightarrow> shell_state" where
  "at_deploy c w s0 j = run w (after_success c) (run w (script c) (at_script c w s0 j))"

text \<open>The package installations of a phase, and the files named by \<^verbatim>\<open>--file\<close>.\<close>

definition is_install :: "simple_command \<Rightarrow> bool" where
  "is_install c \<longleftrightarrow>
     take 2 (argv c) = [''conda'', ''install''] \<or> take 2 (argv c) = [''pip'', ''install'']"

fun file_args :: "string list \<Rightarrow> string list" where
  "file_args (a # b # as) = (if a = ''--file'' then b # file_args as else file_args (b # as))"
| "file_args as = []"

definition requirement_files :: "(simple_command \<times> shell_state) list \<Rightarrow> string list" where
  "requirement_files t = concat (map (\<lambda>(c, s). if is_install c then file_args (argv c) else []) t)"

text \<open>The value of an option written \<^verbatim>\<open>--name=value\<close> in an argument vector.\<close>

definition option_value :: "string \<Rightarrow> string list \<Rightarrow> string option" where
  "option_value opt av =
     (case filter (\<lambda>a. take (length opt + 1) a = opt @ ''='') av of
        [] \<Rightarrow> None
      | a # _ \<Rightarrow> Some (drop (length opt + 1) a))"


section \<open>Deployment\<close>

text \<open>
  After a job whose script succeeded, Travis runs a \<^verbatim>\<open>deploy\<close> entry when every
  condition under its \<^verbatim>\<open>on\<close> key holds: the build is not a pull request;
  \<^verbatim>\<open>tags: true\<close> asks for a tag build (\<^verbatim>\<open>TRAVIS_TAG\<close> not empty) and lifts the
  restriction to the default branch; \<^verbatim>\<open>condition\<close> is a bash conditional expression
  evaluated in the job's shell. Of those expressions the form the configuration uses
  is embedded, a comparison \<^verbatim>\<open>left = right\<close> of two words with a right-hand side
  free of unquoted pattern characters; any other form has no value here.
\<close>

record build =
  tag :: string
  branch :: string
  pull_request :: bool
  passed :: bool

definition is_literal :: "sh_word \<Rightarrow> bool" where
  "is_literal w \<longleftrightarrow> list_all (\<lambda>(q, c). q \<noteq> Bare \<or> c \<notin> set ''*?[$'') w"

definition test_holds :: "variables \<Rightarrow> string \<Rightarrow> bool option" where
  "test_holds vs cond =
     (case shell_words cond of
        [l, opr, r] \<Rightarrow>
          if (opr = [(Bare, CHR ''='')] \<or> opr = [(Bare, CHR ''=''), (Bare, CHR ''='')])
             \<and> is_literal r
          then Some (expand vs l = expand vs r)
          else None
      | _ \<Rightarrow> None)"

definition deploy_due :: "deploy_entry \<Rightarrow> build \<Rightarrow> variables \<Rightarrow> bool" where
  "deploy_due d b vs \<longleftrightarrow>
     \<not> pull_request b
     \<and> (if tags (on d) then tag b \<noteq> [] else tag b = [] \<and> branch b = ''master'')
     \<and> test_holds vs (condition (on d)) = Some True"

definition deployments :: "travis_config \<Rightarrow> build \<Rightarrow> variables \<Rightarrow> deploy_entry list" where
  "deployments c b vs = (if passed b then filter (\<lambda>d. deploy_due d b vs) (deploy c) else [])"

definition job_deployments ::
    "travis_config \<Rightarrow> world \<Rightarrow> shell_state \<Rightarrow> job \<Rightarrow> build \<Rightarrow> deploy_entry list" where
  "job_deployments c w s0 j b = deployments c b (vars (at_deploy c w s0 j))"


section \<open>Package specifications of the manifest\<close>

text \<open>
  A specification is a package name, optionally followed by \<^verbatim>\<open>=\<close> and a version.
  \<open>parse_spec\<close> returns the two parts, or \<open>None\<close> for a string of another shape.
\<close>

definition is_package_char :: "char \<Rightarrow> bool" where
  "is_package_char c \<longleftrightarrow>
     c \<in> set ''ABCDEFGHIJKLMNOPQRSTUVWXYZabcdefghijklmnopqrstuvwxyz0123456789_-.''"

definition is_version_char :: "char \<Rightarrow> bool" where
  "is_version_char c \<longleftrightarrow> c \<in> set ''0123456789.*abcdefghijklmnopqrstuvwxyz''"

definition parse_spec :: "string \<Rightarrow> (string \<times> string option) option" where
  "parse_spec s =
     (let n = takeWhile (\<lambda>c. c \<noteq> CHR ''='') s; r = dropWhile (\<lambda>c. c \<noteq> CHR ''='') s
      in if n = [] \<or> \<not> list_all is_package_char n then None
         else if r = [] then Some (n, None)
         else if tl r \<noteq> [] \<and> list_all is_version_char (tl r) then Some (n, Some (tl r))
         else None)"

fun specs_of :: "dependency \<Rightarrow> string list" where
  "specs_of (Package s) = [s]"
| "specs_of (Pip ss) = ss"

definition all_specs :: "conda_environment \<Rightarrow> string list" where
  "all_specs m = concat (map specs_of (dependencies m))"

definition pinned_specs :: "conda_environment \<Rightarrow> (string \<times> string) list" where
  "pinned_specs m =
     concat (map (\<lambda>s. case parse_spec s of Some (n, Some v) \<Rightarrow> [(n, v)] | _ \<Rightarrow> [])
                 (all_specs m))"

text \<open>
  \<^verbatim>\<open>conda env create [--name N] -f environment.yml\<close>: the environment takes the name
  given on the command line, and the manifest's \<^verbatim>\<open>name\<close> when none is given. The
  manifest's header documents the command with \<^verbatim>\<open>--name nbodykit-docs\<close>.
\<close>

record created_environment =
  created_name :: string
  created_pins :: "(string \<times> string) list"

definition env_create :: "string option \<Rightarrow> conda_environment \<Rightarrow> created_environment" where
  "env_create n m =
     \<lparr> created_name = (case n of None \<Rightarrow> name m | Some x \<Rightarrow> x),
       created_pins = pinned_specs m \<rparr>"


section \<open>Installed packages\<close>


























section \<open>Evaluating the lines of the configuration\<close>

text \<open>
  Each line of the configuration is evaluated once, for an arbitrary shell state: what
  it does to the state, and for the lines of the install and script phases the command
  it expands to. Variables stay symbolic here (\<open>var_value\<close> is not unfolded), so the
  facts hold in every job.
\<close>

lemmas word_defs = parse_command_def shell_words_def expand_def is_append_op_def
  is_blank_def opened_def is_name_char_def Let_def

lemma exec_before_install_0:
  \<open>exec w ''wget http://repo.continuum.io/miniconda/Miniconda3-latest-Linux-x86_64.sh -O miniconda.sh'' s = s\<close>
  by (simp add: exec_def word_defs printed_def assign_def)

lemma exec_before_install_1:
  \<open>exec w ''chmod +x miniconda.sh'' s = s\<close>
  by (simp add: exec_def word_defs printed_def assign_def)

lemma exec_before_install_2:
  \<open>exec w ''./miniconda.sh -b -p $HOME/miniconda'' s = s\<close>
  by (simp add: exec_def word_defs printed_def assign_def)

lemma exec_before_install_3:
  \<open>exec w ''export PATH=$HOME/miniconda/bin:$PATH'' s = s\<lparr>vars := (vars s)(''PATH'' \<mapsto> var_value (vars s) ''HOME'' @ ''/miniconda/bin:'' @ var_value (vars s) ''PATH'')\<rparr>\<close>
  by (simp add: exec_def word_defs printed_def assign_def)

lemma exec_before_install_4:
  \<open>exec w ''export PYTHONHTTPSVERIFY=0'' s = s\<lparr>vars := (vars s)(''PYTHONHTTPSVERIFY'' \<mapsto> ''0'')\<rparr>\<close>
  by (simp add: exec_def word_defs printed_def assign_def)

lemma exec_before_install_5:
  \<open>exec w ''conda update --yes conda'' s = s\<close>
  by (simp add: exec_def word_defs printed_def assign_def)

lemma exec_install_0:
  \<open>exec w ''conda create --yes -n test python=$TRAVIS_PYTHON_VERSION'' s = s\<close>
  by (simp add: exec_def word_defs printed_def assign_def)

lemma exec_install_1:
  \<open>exec w ''source activate test'' s = s\<lparr>vars := activate w ''test'' (vars s)\<rparr>\<close>
  by (simp add: exec_def word_defs printed_def assign_def)

lemma exec_install_2:
  \<open>exec w ''conda config --add channels astropy'' s = s\<close>
  by (simp add: exec_def word_defs printed_def assign_def)

lemma exec_install_3:
  \<open>exec w ''conda config --add channels bccp'' s = s\<close>
  by (simp add: exec_def word_defs printed_def assign_def)

lemma exec_install_4:
  \<open>exec w ''conda install --yes numpy=$NUMPY_VERSION'' s = s\<close>
  by (simp add: exec_def word_defs printed_def assign_def)

lemma exec_install_5:
  \<open>exec w ''echo "numpy $NUMPY_VERSION.*" >> $CONDA_PREFIX/conda-meta/pinned'' s = s\<lparr>files := (files s)(var_value (vars s) ''CONDA_PREFIX'' @ ''/conda-meta/pinned'' := files s (var_value (vars s) ''CONDA_PREFIX'' @ ''/conda-meta/pinned'') @ [''numpy '' @ var_value (vars s) ''NUMPY_VERSION'' @ ''.*''])\<rparr>\<close>
  by (simp add: exec_def word_defs printed_def assign_def)

lemma exec_install_6:
  \<open>exec w ''conda install --yes --file requirements.txt'' s = s\<close>
  by (simp add: exec_def word_defs printed_def assign_def)

lemma exec_install_7:
  \<open>exec w ''conda install --yes --file requirements-extras.txt'' s = s\<close>
  by (simp add: exec_def word_defs printed_def assign_def)

lemma exec_install_8:
  \<open>exec w ''pip install coveralls'' s = s\<close>
  by (simp add: exec_def word_defs printed_def assign_def)

lemma exec_install_9:
  \<open>exec w ''pip install .[extras]'' s = s\<close>
  by (simp add: exec_def word_defs printed_def assign_def)

lemma exec_script_0:
  \<open>exec w ''python run-tests.py -v --mpirun='mpirun -n 4' --with-coverage'' s = s\<close>
  by (simp add: exec_def word_defs printed_def assign_def)

lemma exec_after_success_0:
  \<open>exec w ''coveralls'' s = s\<close>
  by (simp add: exec_def word_defs printed_def assign_def)

lemma exec_job_env_0:
  \<open>exec w ''export NUMPY_VERSION=1.15'' s = s\<lparr>vars := (vars s)(''NUMPY_VERSION'' \<mapsto> ''1.15'')\<rparr>\<close>
  by (simp add: exec_def word_defs printed_def assign_def)

lemmas exec_lines = exec_before_install_0 exec_before_install_1 exec_before_install_2 exec_before_install_3 exec_before_install_4 exec_before_install_5 exec_install_0 exec_install_1 exec_install_2 exec_install_3 exec_install_4 exec_install_5 exec_install_6 exec_install_7 exec_install_8 exec_install_9 exec_script_0 exec_after_success_0 exec_job_env_0

lemma parse_install_0:
  \<open>parse_command vs ''conda create --yes -n test python=$TRAVIS_PYTHON_VERSION'' =
     \<lparr> argv = [''conda'', ''create'', ''--yes'', ''-n'', ''test'', ''python='' @ var_value vs ''TRAVIS_PYTHON_VERSION''],
       append_to = None \<rparr>\<close>
  by (simp add: word_defs)

lemma parse_install_1:
  \<open>parse_command vs ''source activate test'' =
     \<lparr> argv = [''source'', ''activate'', ''test''],
       append_to = None \<rparr>\<close>
  by (simp add: word_defs)

lemma parse_install_2:
  \<open>parse_command vs ''conda config --add channels astropy'' =
     \<lparr> argv = [''conda'', ''config'', ''--add'', ''channels'', ''astropy''],
       append_to = None \<rparr>\<close>
  by (simp add: word_defs)

lemma parse_install_3:
  \<open>parse_command vs ''conda config --add channels bccp'' =
     \<lparr> argv = [''conda'', ''config'', ''--add'', ''channels'', ''bccp''],
       append_to = None \<rparr>\<close>
  by (simp add: word_defs)

lemma parse_install_4:
  \<open>parse_command vs ''conda install --yes numpy=$NUMPY_VERSION'' =
     \<lparr> argv = [''conda'', ''install'', ''--yes'', ''numpy='' @ var_value vs ''NUMPY_VERSION''],
       append_to = None \<rparr>\<close>
  by (simp add: word_defs)

lemma parse_install_5:
  \<open>parse_command vs ''echo "numpy $NUMPY_VERSION.*" >> $CONDA_PREFIX/conda-meta/pinned'' =
     \<lparr> argv = [''echo'', ''numpy '' @ var_value vs ''NUMPY_VERSION'' @ ''.*''],
       append_to = Some (var_value vs ''CONDA_PREFIX'' @ ''/conda-meta/pinned'') \<rparr>\<close>
  by (simp add: word_defs)

lemma parse_install_6:
  \<open>parse_command vs ''conda install --yes --file requirements.txt'' =
     \<lparr> argv = [''conda'', ''install'', ''--yes'', ''--file'', ''requirements.txt''],
       append_to = None \<rparr>\<close>
  by (simp add: word_defs)

lemma parse_install_7:
  \<open>parse_command vs ''conda install --yes --file requirements-extras.txt'' =
     \<lparr> argv = [''conda'', ''install'', ''--yes'', ''--file'', ''requirements-extras.txt''],
       append_to = None \<rparr>\<close>
  by (simp add: word_defs)

lemma parse_install_8:
  \<open>parse_command vs ''pip install coveralls'' =
     \<lparr> argv = [''pip'', ''install'', ''coveralls''],
       append_to = None \<rparr>\<close>
  by (simp add: word_defs)

lemma parse_install_9:
  \<open>parse_command vs ''pip install .[extras]'' =
     \<lparr> argv = [''pip'', ''install'', ''.[extras]''],
       append_to = None \<rparr>\<close>
  by (simp add: word_defs)

lemma parse_script_0:
  "parse_command vs ''python run-tests.py -v --mpirun='mpirun -n 4' --with-coverage'' =
     \<lparr> argv = [''python'', ''run-tests.py'', ''-v'', ''--mpirun=mpirun -n 4'', ''--with-coverage''],
       append_to = None \<rparr>"
  by (simp add: word_defs)

lemma parse_mpirun:
  "parse_command vs ''mpirun -n 4'' = \<lparr> argv = [''mpirun'', ''-n'', ''4''], append_to = None \<rparr>"
  by (simp add: word_defs)

lemmas parse_install = parse_install_0 parse_install_1 parse_install_2 parse_install_3 parse_install_4 parse_install_5 parse_install_6 parse_install_7 parse_install_8 parse_install_9

lemmas phase_defs = at_deploy_def at_script_def at_install_def job_start_def run_def

















section \<open>The script phase\<close>

text \<open>
  C5. The script phase of every job is exactly one command: the test runner
  \<^verbatim>\<open>run-tests.py\<close> started by \<^verbatim>\<open>python\<close>, with the verbosity flag \<^verbatim>\<open>-v\<close>, the
  option \<^verbatim>\<open>--mpirun\<close> whose value is the launcher command \<^verbatim>\<open>mpirun -n 4\<close> (four
  MPI processes) passed as a single argument, and the flag \<^verbatim>\<open>--with-coverage\<close>.
\<close>

theorem script_is_one_test_run:
  "length (script travis) = 1
   \<and> map fst (script_trace travis w s0 j) =
       [\<lparr> argv = [''python'', ''run-tests.py'', ''-v'', ''--mpirun=mpirun -n 4'',
                  ''--with-coverage''],
          append_to = None \<rparr>]
   \<and> (let av = argv (fst (hd (script_trace travis w s0 j)))
      in ''-v'' \<in> set av \<and> ''--with-coverage'' \<in> set av
       \<and> map_option (argv \<circ> parse_command vs) (option_value ''--mpirun'' av) =
           Some [''mpirun'', ''-n'', ''4''])"
  by (simp add: script_trace_def travis_def parse_script_0 parse_mpirun option_value_def)


section \<open>The install phase\<close>




text \<open>
  C6. Every entry of the manifest \<^verbatim>\<open>environment.yml\<close>, the entries of its \<^verbatim>\<open>pip\<close>
  section included, is a package name with an optional version after \<^verbatim>\<open>=\<close>; the only
  entry with a version is \<^verbatim>\<open>python=3.6\<close>. The install phase of a job reads its
  dependencies from two files named by \<^verbatim>\<open>--file\<close>, \<^verbatim>\<open>requirements.txt\<close> and
  \<^verbatim>\<open>requirements-extras.txt\<close>, in two separate commands, and the two names differ.
\<close>

theorem manifests_are_package_specs:
  "list_all (\<lambda>s. parse_spec s \<noteq> None) (all_specs environment)
   \<and> length (all_specs environment) = 28
   \<and> pinned_specs environment = [(''python'', ''3.6'')]
   \<and> requirement_files (install_trace travis w s0 j) =
       [''requirements.txt'', ''requirements-extras.txt'']
   \<and> map (\<lambda>(c, s). file_args (argv c)) (take 2 (drop 6 (install_trace travis w s0 j))) =
       [ [''requirements.txt''], [''requirements-extras.txt'']]
   \<and> distinct (requirement_files (install_trace travis w s0 j))"
  by (simp add: all_specs_def pinned_specs_def environment_def parse_spec_def
      is_package_char_def is_version_char_def requirement_files_def install_trace_def
      travis_def exec_lines parse_install is_install_def)

theorem manifests_are_package_specs_witness:
  "parse_spec ''python=3.6'' = Some (''python'', Some ''3.6'')
   \<and> parse_spec ''sphinx_bootstrap_theme'' = Some (''sphinx_bootstrap_theme'', None)
   \<and> list_all (\<lambda>s. parse_spec s \<noteq> None) (all_specs environment)"
  using manifests_are_package_specs
  by (simp add: parse_spec_def is_package_char_def is_version_char_def)


section \<open>The deploy phase\<close>

text \<open>
  C4. A job with interpreter \<open>v\<close> deploys exactly when its script passed, the build is
  not a pull request, the build is for a tag and \<open>v\<close> is \<^verbatim>\<open>2.7\<close>; what it then runs is
  the single entry that uploads the distribution \<^verbatim>\<open>sdist\<close> with the provider
  \<^verbatim>\<open>pypi\<close>. Without a tag, or with any other interpreter, nothing is deployed.
\<close>

theorem deploy_gated_on_tag_and_python:
  "map (\<lambda>d. (provider d, distributions d))
       (job_deployments travis w s0 \<lparr> job_python = v, job_env = Some ''NUMPY_VERSION=1.15'' \<rparr> b) =
     (if passed b \<and> \<not> pull_request b \<and> tag b \<noteq> [] \<and> v = ''2.7''
      then [(''pypi'', ''sdist'')] else [])"
  by (simp add: job_deployments_def deployments_def deploy_due_def phase_defs travis_def
      exec_lines travis_deploy_pypi_def test_holds_def is_literal_def shell_words_def
      expand_def is_blank_def opened_def is_name_char_def var_value_def activate_def)

theorem deploy_gated_on_tag_and_python_witness:
  "map (\<lambda>d. (provider d, distributions d))
       (job_deployments travis
          \<lparr> env_prefix = (\<lambda>n. ''/home/travis/miniconda/envs/'' @ n), stdout_of = (\<lambda>av. []) \<rparr>
          \<lparr> vars = Map.empty, files = (\<lambda>f. []) \<rparr>
          \<lparr> job_python = ''2.7'', job_env = Some ''NUMPY_VERSION=1.15'' \<rparr>
          \<lparr> tag = ''v0.3.7'', branch = ''v0.3.7'', pull_request = False, passed = True \<rparr>) =
     [(''pypi'', ''sdist'')]
   \<and> job_deployments travis
          \<lparr> env_prefix = (\<lambda>n. ''/home/travis/miniconda/envs/'' @ n), stdout_of = (\<lambda>av. []) \<rparr>
          \<lparr> vars = Map.empty, files = (\<lambda>f. []) \<rparr>
          \<lparr> job_python = ''3.6'', job_env = Some ''NUMPY_VERSION=1.15'' \<rparr>
          \<lparr> tag = ''v0.3.7'', branch = ''v0.3.7'', pull_request = False, passed = True \<rparr> = []
   \<and> job_deployments travis
          \<lparr> env_prefix = (\<lambda>n. ''/home/travis/miniconda/envs/'' @ n), stdout_of = (\<lambda>av. []) \<rparr>
          \<lparr> vars = Map.empty, files = (\<lambda>f. []) \<rparr>
          \<lparr> job_python = ''2.7'', job_env = Some ''NUMPY_VERSION=1.15'' \<rparr>
          \<lparr> tag = [], branch = ''master'', pull_request = False, passed = True \<rparr> = []"
  using
    deploy_gated_on_tag_and_python
      [of "\<lparr> env_prefix = (\<lambda>n. ''/home/travis/miniconda/envs/'' @ n), stdout_of = (\<lambda>av. []) \<rparr>"
          "\<lparr> vars = Map.empty, files = (\<lambda>f. []) \<rparr>" "''2.7''"
          "\<lparr> tag = ''v0.3.7'', branch = ''v0.3.7'', pull_request = False, passed = True \<rparr>"]
    deploy_gated_on_tag_and_python
      [of "\<lparr> env_prefix = (\<lambda>n. ''/home/travis/miniconda/envs/'' @ n), stdout_of = (\<lambda>av. []) \<rparr>"
          "\<lparr> vars = Map.empty, files = (\<lambda>f. []) \<rparr>" "''3.6''"
          "\<lparr> tag = ''v0.3.7'', branch = ''v0.3.7'', pull_request = False, passed = True \<rparr>"]
    deploy_gated_on_tag_and_python
      [of "\<lparr> env_prefix = (\<lambda>n. ''/home/travis/miniconda/envs/'' @ n), stdout_of = (\<lambda>av. []) \<rparr>"
          "\<lparr> vars = Map.empty, files = (\<lambda>f. []) \<rparr>" "''2.7''"
          "\<lparr> tag = [], branch = ''master'', pull_request = False, passed = True \<rparr>"]
  by simp


section \<open>The documentation environment\<close>

text \<open>
  C10, as the manifest has it. Created from \<^verbatim>\<open>environment.yml\<close> with the name left to
  the manifest, or with the name its header documents, the environment is named
  \<^verbatim>\<open>nbodykit-docs\<close>; a name given on the command line takes the place of the
  manifest's. Under every name the interpreter is pinned to \<^verbatim>\<open>python=3.6\<close>. The CI
  matrix runs the three interpreters 2.7, 3.6 and 3.7, and the pinned one differs from
  exactly two of them, 2.7 and 3.7.
\<close>

theorem docs_environment_python:
  "created_name (env_create n environment) =
     (case n of None \<Rightarrow> ''nbodykit-docs'' | Some x \<Rightarrow> x)
   \<and> created_name (env_create None environment) = ''nbodykit-docs''
   \<and> created_name (env_create (Some ''nbodykit-docs'') environment) = ''nbodykit-docs''
   \<and> map_of (created_pins (env_create n environment)) ''python'' = Some ''3.6''
   \<and> python travis = [''2.7'', ''3.6'', ''3.7'']
   \<and> filter (\<lambda>p. map_of (created_pins (env_create n environment)) ''python'' \<noteq> Some p)
        (python travis) = [''2.7'', ''3.7'']"
  by (simp add: env_create_def pinned_specs_def all_specs_def environment_def travis_def
      parse_spec_def is_package_char_def is_version_char_def split: option.splits)

text \<open>
  C10 as the claim words it, an environment that is always named \<^verbatim>\<open>nbodykit-docs\<close>,
  fails for a creation that passes another name.
\<close>

theorem docs_environment_renamed:
  "created_name (env_create (Some ''scratch'') environment) \<noteq> ''nbodykit-docs''"
  by (simp add: env_create_def)


end
